theory Spec2Isabelle
  imports Main "HOL-Library.Word"
begin

unbundle bit_operations_syntax

section \<open>The diagnostic log\<close>

text \<open>
  \<^verbatim>\<open>Mma.Messages\<close> is an append-only array of pairs \<^verbatim>\<open>[level, text]\<close>. It is passed
  through the model explicitly: every function that may log takes the log and returns
  the new one. \<^verbatim>\<open>console.log\<close> has no effect on the decode and is left out.

  A function that may throw returns \<open>Inl\<close> of what was thrown. \<^verbatim>\<open>Mma.Fail\<close> throws the
  string \<^verbatim>\<open>"Mma.js ERROR: " + text\<close>; \<^verbatim>\<open>atob\<close> and \<^verbatim>\<open>pako.inflate\<close> throw values of
  their own.
\<close>

type_synonym message = "string \<times> string"

datatype error = Mma_ERROR string | Base64_Exception | Inflate_Exception

type_synonym 'a result = "message list \<times> (error + 'a)"

definition Log :: "string \<Rightarrow> message list \<Rightarrow> message list" where
  "Log text msgs = msgs @ [(''I'', text)]"

definition Warn :: "string \<Rightarrow> message list \<Rightarrow> message list" where
  "Warn text msgs = msgs @ [(''W'', text)]"

definition Fail :: "string \<Rightarrow> message list \<Rightarrow> 'a result" where
  "Fail text msgs = (msgs @ [(''E'', text)], Inl (Mma_ERROR (''Mma.js ERROR: '' @ text)))"

section \<open>The fragment of JavaScript that the constructors' checks use\<close>

text \<open>
  Numbers are needed only as far as \<^verbatim>\<open>Number(c)\<close> of a one-character string and the
  strict comparison \<^verbatim>\<open>===\<close> go: \<^verbatim>\<open>NaN\<close> is a number that is strictly equal to nothing,
  itself included, and values of different types are never strictly equal.
\<close>

datatype jsnum = NaN | Num int

datatype jsval = JUndefined | JNumber jsnum | JString string

fun strict_eq :: "jsval \<Rightarrow> jsval \<Rightarrow> bool" where
  "strict_eq JUndefined JUndefined = True"
| "strict_eq (JNumber a) (JNumber b) = (a \<noteq> NaN \<and> b \<noteq> NaN \<and> a = b)"
| "strict_eq (JString a) (JString b) = (a = b)"
| "strict_eq _ _ = False"

text \<open>
  \<^verbatim>\<open>Number(c)\<close> for a string of one character: a decimal digit is its value, white
  space and line terminators trim to the empty string, which is 0, and every other
  character is \<^verbatim>\<open>NaN\<close>.
\<close>

definition is_digit :: "char \<Rightarrow> bool" where
  "is_digit c = (48 \<le> (of_char c :: nat) \<and> (of_char c :: nat) \<le> 57)"

definition Number_char :: "char \<Rightarrow> jsnum" where
  "Number_char c =
     (if is_digit c then Num (int (of_char c) - 48)
      else if (of_char c :: nat) \<in> {9, 10, 11, 12, 13, 32, 160} then Num 0
      else NaN)"

text \<open>\<^verbatim>\<open>input[i]\<close> on a string: the one-character string, or \<^verbatim>\<open>undefined\<close> out of range.\<close>

definition char_at :: "string \<Rightarrow> nat \<Rightarrow> jsval" where
  "char_at input i = (if i < length input then JString [input ! i] else JUndefined)"

text \<open>\<^verbatim>\<open>String(n)\<close> for an integer: its decimal digits, with a minus sign when negative.\<close>

fun String_nat :: "nat \<Rightarrow> string" where
  "String_nat n =
     (if n < 10 then [char_of (48 + n)]
      else String_nat (n div 10) @ [char_of (48 + n mod 10)])"

declare String_nat.simps [simp del]

definition String_int :: "int \<Rightarrow> string" where
  "String_int i = (if i < 0 then ''-'' @ String_nat (nat (- i)) else String_nat (nat i))"

section \<open>Utilities\<close>

type_synonym byte = "8 word"

text \<open>
  A string made from bytes has code units below 256 and is a \<open>string\<close>;
  \<^verbatim>\<open>String.fromCharCode\<close> of a byte is the character with that code, and of
  \<^verbatim>\<open>undefined\<close> the character with code 0.
\<close>

definition fromCharCode :: "byte \<Rightarrow> char" where
  "fromCharCode b = char_of (unat b)"

definition fromCharCode_opt :: "byte option \<Rightarrow> char" where
  "fromCharCode_opt v = (case v of None \<Rightarrow> char_of (0 :: nat) | Some b \<Rightarrow> fromCharCode b)"

text \<open>
  \<^verbatim>\<open>Mma.Util.U8ArrayToString\<close>: the array is converted in chunks of \<^verbatim>\<open>0x8000\<close> bytes,
  and the chunks are joined.
\<close>

definition chunkSize :: nat where
  "chunkSize = 0x8000"

function U8_chunks :: "byte list \<Rightarrow> nat \<Rightarrow> string list \<Rightarrow> string list" where
  "U8_chunks array i substrings =
     (if i < length array
      then U8_chunks array (i + chunkSize)
             (substrings @ [map fromCharCode (take chunkSize (drop i array))])
      else substrings)"
  by pat_completeness auto
termination
  by (relation "measure (\<lambda>(array, i, substrings). length array - i)")
     (auto simp: chunkSize_def)

declare U8_chunks.simps [simp del]

definition U8ArrayToString :: "byte list \<Rightarrow> string" where
  "U8ArrayToString array = concat (U8_chunks array 0 [])"


section \<open>The seven core types\<close>

text \<open>
  A machine-precision real is kept as the 64 bits of its IEEE 754 binary64 encoding:
  the number 0 that \<^verbatim>\<open>Mma.Decode.Float64\<close> returns out of range is the pattern of all
  zeros, 1.0 is \<^verbatim>\<open>0x3FF0000000000000\<close>.
\<close>

type_synonym float64 = "64 word"

datatype Value =
    IntegerMP int
  | IntegerAP string
  | RealMP float64
  | RealAP string
  | Symbol string
  | String string
  | Expression Value "Value list"

text \<open>
  \<^verbatim>\<open>new Mma.IntegerAP(input)\<close> for a string: the loop over the characters fails when
  \<^verbatim>\<open>Number(input[i]) === NaN\<close>, then the constructor fails when the string is longer
  than 1 and \<^verbatim>\<open>input[0] === 0\<close>. The decoder only ever passes strings, and the other
  constructors (\<^verbatim>\<open>IntegerMP\<close> of an integer, \<^verbatim>\<open>RealMP\<close> of a number, \<^verbatim>\<open>Symbol\<close> and
  \<^verbatim>\<open>String\<close> of a string) accept every value of the type they are given here.
\<close>

definition new_IntegerAP :: "string \<Rightarrow> message list \<Rightarrow> Value result" where
  "new_IntegerAP input msgs =
     (if list_ex (\<lambda>c. strict_eq (JNumber (Number_char c)) (JNumber NaN)) input
      then Fail (''IntegerAP: invalid input, contains non-digit: '' @ input) msgs
      else if length input > 1 \<and> strict_eq (char_at input 0) (JNumber (Num 0))
      then Fail (''IntegerAP: input starts with 0: '' @ input) msgs
      else (msgs, Inr (IntegerAP input)))"

definition new_RealAP :: "string \<Rightarrow> message list \<Rightarrow> Value result" where
  "new_RealAP input msgs =
     (if length input > 1 \<and> strict_eq (char_at input 0) (JNumber (Num 0))
      then Fail (''RealAP: input starts with 0: '' @ input) msgs
      else (msgs, Inr (RealAP input)))"

text \<open>
  \<^verbatim>\<open>new Mma.Expression(head, parts)\<close>: the head is any value or \<^verbatim>\<open>undefined\<close> (\<open>None\<close>),
  and \<^verbatim>\<open>head instanceof Mma.Symbol\<close> holds for the values that the \<^verbatim>\<open>Symbol\<close>
  constructor made. The parts are always an array here.
\<close>

definition new_Expression :: "Value option \<Rightarrow> Value list \<Rightarrow> message list \<Rightarrow> Value result" where
  "new_Expression head parts msgs =
     (case head of
        Some (Symbol name) \<Rightarrow> (msgs, Inr (Expression (Symbol name) parts))
      | _ \<Rightarrow> Fail ''Expression: head must be an Mma.Symbol'' msgs)"

section \<open>Primitive decoders\<close>

text \<open>
  The buffer is a \<^verbatim>\<open>Uint8Array\<close> that covers its whole \<^verbatim>\<open>ArrayBuffer\<close>, as the one
  \<^verbatim>\<open>Mma.Decompress\<close> returns does, so \<^verbatim>\<open>new DataView(bits.buffer)\<close> sees the same bytes.
  \<^verbatim>\<open>getInt32\<close> and \<^verbatim>\<open>getFloat64\<close> throw a \<^verbatim>\<open>RangeError\<close> for a negative offset and for
  a read that ends after the last byte.
\<close>

definition getInt32 :: "byte list \<Rightarrow> int \<Rightarrow> int option" where
  "getInt32 buffer byteOffset =
     (if byteOffset < 0 \<or> int (length buffer) < byteOffset + 4 then None
      else Some (sint (word_rcat (rev (take 4 (drop (nat byteOffset) buffer))) :: 32 word)))"

definition getFloat64 :: "byte list \<Rightarrow> int \<Rightarrow> float64 option" where
  "getFloat64 buffer byteOffset =
     (if byteOffset < 0 \<or> int (length buffer) < byteOffset + 8 then None
      else Some (word_rcat (rev (take 8 (drop (nat byteOffset) buffer)))))"

definition Int32 :: "byte list \<Rightarrow> int \<Rightarrow> int" where
  "Int32 bits offset = (case getInt32 bits offset of Some v \<Rightarrow> v | None \<Rightarrow> 0)"

definition Float64 :: "byte list \<Rightarrow> int \<Rightarrow> float64" where
  "Float64 bits offset = (case getFloat64 bits offset of Some v \<Rightarrow> v | None \<Rightarrow> 0)"

text \<open>
  \<^verbatim>\<open>bits[offset]\<close> is \<^verbatim>\<open>undefined\<close> out of range. \<^verbatim>\<open>bits.slice(start, end)\<close> counts a
  negative index from the end and clamps both indices to the array.
\<close>

definition u8_at :: "byte list \<Rightarrow> int \<Rightarrow> byte option" where
  "u8_at bits i = (if 0 \<le> i \<and> i < int (length bits) then Some (bits ! nat i) else None)"

definition relative_index :: "int \<Rightarrow> int \<Rightarrow> int" where
  "relative_index len i = (if i < 0 then max (len + i) 0 else min i len)"

definition slice_u8 :: "byte list \<Rightarrow> int \<Rightarrow> int \<Rightarrow> byte list" where
  "slice_u8 bits start end =
     (let len = int (length bits);
          k = relative_index len start;
          final = relative_index len end
      in take (nat (max (final - k) 0)) (drop (nat k) bits))"

definition Decode_String :: "byte list \<Rightarrow> int \<Rightarrow> int \<Rightarrow> string" where
  "Decode_String bits offset len = U8ArrayToString (slice_u8 bits offset (offset + len))"

record string_entry =
  se_length :: int
  se_string :: string
  bytesRead :: int

definition StringEntry :: "byte list \<Rightarrow> int \<Rightarrow> string_entry" where
  "StringEntry bits offset =
     (let len = Int32 bits offset;
          string = Decode_String bits (offset + 4) len
      in \<lparr> se_length = len, se_string = string, bytesRead = len + 4 \<rparr>)"

section \<open>Matrix decoder\<close>

text \<open>
  \<^verbatim>\<open>sizes[i]\<close> is \<^verbatim>\<open>undefined\<close> out of range, and \<^verbatim>\<open>i < undefined\<close> is false, so a loop
  \<^verbatim>\<open>for (var i = 0; i < bound; i++)\<close> runs \<open>iterations bound\<close> times.
\<close>

definition sizes_at :: "int list \<Rightarrow> int \<Rightarrow> int option" where
  "sizes_at sizes i = (if 0 \<le> i \<and> i < int (length sizes) then Some (sizes ! nat i) else None)"

definition iterations :: "int option \<Rightarrow> nat" where
  "iterations bound = (case bound of None \<Rightarrow> 0 | Some c \<Rightarrow> nat c)"

text \<open>The loop that reads the \<open>n\<close> sizes, and the loop of level 0 that reads the floats.\<close>

fun sizes_loop :: "byte list \<Rightarrow> nat \<Rightarrow> int \<Rightarrow> int list \<Rightarrow> int list \<times> int" where
  "sizes_loop bits 0 offset sizes = (sizes, offset)"
| "sizes_loop bits (Suc k) offset sizes =
     sizes_loop bits k (offset + 4) (sizes @ [Int32 bits offset])"

fun floats_loop :: "byte list \<Rightarrow> nat \<Rightarrow> int \<Rightarrow> Value list \<Rightarrow> Value list \<times> int" where
  "floats_loop bits 0 offset list = (list, offset)"
| "floats_loop bits (Suc k) offset list =
     floats_loop bits k (offset + 8) (list @ [RealMP (Float64 bits offset)])"

text \<open>
  \<^verbatim>\<open>ParseMatrixAtLevel\<close> returns \<^verbatim>\<open>{expr, bytesRead}\<close>, here a pair. \<open>sublists_loop\<close> is
  its loop over the sub-lists of a level above 0. The head of every list is
  \<^verbatim>\<open>new Mma.Symbol("List")\<close>, which the \<^verbatim>\<open>Expression\<close> constructor accepts.
\<close>

function ParseMatrixAtLevel :: "byte list \<Rightarrow> int \<Rightarrow> int list \<Rightarrow> int \<Rightarrow> Value \<times> int"
  and sublists_loop :: "byte list \<Rightarrow> int list \<Rightarrow> int \<Rightarrow> nat \<Rightarrow> int \<Rightarrow> Value list \<Rightarrow> Value list \<times> int"
where
  "ParseMatrixAtLevel bits offset sizes level =
     (let originalOffset = offset;
          (list, offset') =
            (if level = 0
             then floats_loop bits
                    (iterations (sizes_at sizes (int (length sizes) - 1))) offset []
             else sublists_loop bits sizes level
                    (iterations (sizes_at sizes (int (length sizes) - level - 1))) offset [])
      in (Expression (Symbol ''List'') list, offset' - originalOffset))"
| "sublists_loop bits sizes level 0 offset list = (list, offset)"
| "sublists_loop bits sizes level (Suc k) offset list =
     (let p = ParseMatrixAtLevel bits offset sizes (level - 1)
      in sublists_loop bits sizes level k (offset + snd p) (list @ [fst p]))"
  by pat_completeness auto
termination
  by (relation "measures
        [\<lambda>x. case x of
                Inl (bits, offset, sizes, level) \<Rightarrow> if level < 0 then 1 else 2 * nat level + 2
              | Inr (bits, sizes, level, k, offset, list) \<Rightarrow> 2 * nat level + 1,
         \<lambda>x. case x of
                Inl (bits, offset, sizes, level) \<Rightarrow> if level < 0 then 1 else 0
              | Inr (bits, sizes, level, k, offset, list) \<Rightarrow> 2 * k]")
     (auto simp: sizes_at_def iterations_def)

declare ParseMatrixAtLevel.simps [simp del]

text \<open>The \<^verbatim>\<open>REAL_MATRIX\<close> case of the sequence decoder, from the offset after the tag.\<close>

definition decode_matrix :: "byte list \<Rightarrow> int \<Rightarrow> Value \<times> int" where
  "decode_matrix bits offset =
     (let n = Int32 bits offset;
          (sizes, offset') = sizes_loop bits (nat n) (offset + 4) [];
          parsedMatrix = ParseMatrixAtLevel bits offset' sizes (n - 1)
      in (fst parsedMatrix, offset' + snd parsedMatrix))"

section \<open>Sequence decoder\<close>

datatype dstate =
    READY | INTEGER_MP | INTEGER_AP | REAL_MP | REAL_AP
  | SYMBOL | STRING | EXPRESSION | REAL_MATRIX

text \<open>\<^verbatim>\<open>maxParts\<close> is a number or \<^verbatim>\<open>Infinity\<close>, the default.\<close>

datatype limit = Infinity | Finite int

fun below :: "nat \<Rightarrow> limit \<Rightarrow> bool" where
  "below n Infinity = True"
| "below n (Finite m) = (int n < m)"

text \<open>The switch on \<^verbatim>\<open>String.fromCharCode(next_type)\<close>: the state of a known tag.\<close>

definition tag_state :: "byte option \<Rightarrow> dstate option" where
  "tag_state next_type =
     (let c = fromCharCode_opt next_type in
      if c = CHR ''i'' then Some INTEGER_MP
      else if c = CHR ''I'' then Some INTEGER_AP
      else if c = CHR ''r'' then Some REAL_MP
      else if c = CHR ''R'' then Some REAL_AP
      else if c = CHR ''s'' then Some SYMBOL
      else if c = CHR ''S'' then Some STRING
      else if c = CHR ''f'' then Some EXPRESSION
      else if c = CHR ''e'' then Some REAL_MATRIX
      else None)"

definition String_opt :: "byte option \<Rightarrow> string" where
  "String_opt v = (case v of None \<Rightarrow> ''undefined'' | Some b \<Rightarrow> String_nat (unat b))"

definition unknown_type_text :: "byte option \<Rightarrow> int \<Rightarrow> string" where
  "unknown_type_text next_type offset =
     ''Decode.Any (READY): byte '' @ String_opt next_type @ '' ('' @
     [fromCharCode_opt next_type] @ '') at offset '' @ String_int offset @
     '' is not a known type signature''"

text \<open>
  The \<^verbatim>\<open>while\<close> loop of \<^verbatim>\<open>Mma.Decode.Any\<close>. Its variables are the state, the offset,
  the parts and the log; \<^verbatim>\<open>done\<close> is never set and is left out. The loop may run
  forever and the function calls itself in the \<^verbatim>\<open>EXPRESSION\<close> case, so the model
  counts fuel: one unit for each iteration and for each level of the recursion. With
  no fuel left the result is \<open>None\<close>; otherwise it is the log and either what was
  thrown or \<^verbatim>\<open>{parts, bytesRead}\<close>.
\<close>

fun Any_loop ::
  "nat \<Rightarrow> byte list \<Rightarrow> limit \<Rightarrow> int \<Rightarrow> dstate \<Rightarrow> int \<Rightarrow> Value list \<Rightarrow> message list
     \<Rightarrow> (Value list \<times> int) result option"
where
  "Any_loop 0 bits maxParts originalOffset state offset parts msgs = None"
| "Any_loop (Suc fuel) bits maxParts originalOffset state offset parts msgs =
     (if \<not> (offset < int (length bits) \<and> below (length parts) maxParts)
      then Some (msgs, Inr (parts, offset - originalOffset))
      else case state of
        READY \<Rightarrow>
          (let next_type = u8_at bits offset in
           case tag_state next_type of
             Some state' \<Rightarrow>
               Any_loop fuel bits maxParts originalOffset state' (offset + 1) parts msgs
           | None \<Rightarrow>
               Any_loop fuel bits maxParts originalOffset READY (offset + 1) parts
                 (Warn (unknown_type_text next_type offset) msgs))
      | INTEGER_MP \<Rightarrow>
          Any_loop fuel bits maxParts originalOffset READY (offset + 4)
            (parts @ [IntegerMP (Int32 bits offset)]) msgs
      | INTEGER_AP \<Rightarrow>
          (let se = StringEntry bits offset in
           case new_IntegerAP (se_string se) msgs of
             (msgs', Inl e) \<Rightarrow> Some (msgs', Inl e)
           | (msgs', Inr v) \<Rightarrow>
               Any_loop fuel bits maxParts originalOffset READY (offset + bytesRead se)
                 (parts @ [v]) msgs')
      | REAL_MP \<Rightarrow>
          Any_loop fuel bits maxParts originalOffset READY (offset + 8)
            (parts @ [RealMP (Float64 bits offset)]) msgs
      | REAL_AP \<Rightarrow>
          (let se = StringEntry bits offset in
           case new_RealAP (se_string se) msgs of
             (msgs', Inl e) \<Rightarrow> Some (msgs', Inl e)
           | (msgs', Inr v) \<Rightarrow>
               Any_loop fuel bits maxParts originalOffset READY (offset + bytesRead se)
                 (parts @ [v]) msgs')
      | SYMBOL \<Rightarrow>
          (let se = StringEntry bits offset in
           Any_loop fuel bits maxParts originalOffset READY (offset + bytesRead se)
             (parts @ [Symbol (se_string se)]) msgs)
      | STRING \<Rightarrow>
          (let se = StringEntry bits offset in
           Any_loop fuel bits maxParts originalOffset READY (offset + bytesRead se)
             (parts @ [String (se_string se)]) msgs)
      | EXPRESSION \<Rightarrow>
          (let exprPartCount = Int32 bits offset;
               offset4 = offset + 4 in
           case Any_loop fuel bits (Finite (exprPartCount + 1)) offset4 READY offset4 [] msgs of
             None \<Rightarrow> None
           | Some (msgs', Inl e) \<Rightarrow> Some (msgs', Inl e)
           | Some (msgs', Inr (exprDec_parts, exprDec_bytesRead)) \<Rightarrow>
               (let exprHead = (case exprDec_parts of [] \<Rightarrow> None | h # _ \<Rightarrow> Some h);
                    exprParts = drop 1 exprDec_parts in
                case new_Expression exprHead exprParts msgs' of
                  (msgs'', Inl e) \<Rightarrow> Some (msgs'', Inl e)
                | (msgs'', Inr v) \<Rightarrow>
                    Any_loop fuel bits maxParts originalOffset READY
                      (offset4 + exprDec_bytesRead) (parts @ [v]) msgs''))
      | REAL_MATRIX \<Rightarrow>
          (let (expr, offset') = decode_matrix bits offset in
           Any_loop fuel bits maxParts originalOffset READY offset' (parts @ [expr]) msgs))"

text \<open>\<^verbatim>\<open>Mma.Decode.Any(bits, offset, maxParts)\<close>: the loop from \<^verbatim>\<open>READY\<close> with no parts.\<close>

definition Any :: "nat \<Rightarrow> byte list \<Rightarrow> int \<Rightarrow> limit \<Rightarrow> message list
    \<Rightarrow> (Value list \<times> int) result option" where
  "Any fuel bits offset maxParts msgs = Any_loop fuel bits maxParts offset READY offset [] msgs"

section \<open>Preprocessor\<close>









section \<open>Facts about the utilities and the constructors\<close>

lemma U8_chunks_concat:
  "concat (U8_chunks array i subs) = concat subs @ map fromCharCode (drop i array)"
proof (induction array i subs rule: U8_chunks.induct)
  case (1 array i substrings)
  show ?case
  proof (cases "i < length array")
    case True
    have "take chunkSize (drop i array) @ drop (i + chunkSize) array = drop i array"
      by (metis add.commute append_take_drop_id drop_drop)
    then have "map fromCharCode (take chunkSize (drop i array)) @
               map fromCharCode (drop (i + chunkSize) array) = map fromCharCode (drop i array)"
      by (metis map_append)
    with True 1 show ?thesis
      by (subst U8_chunks.simps) simp
  next
    case False
    then show ?thesis by (subst U8_chunks.simps) simp
  qed
qed

lemma U8ArrayToString_map: "U8ArrayToString array = map fromCharCode array"
  by (simp add: U8ArrayToString_def U8_chunks_concat)

text \<open>
  Neither check of the arbitrary-precision constructors can fire: nothing is strictly
  equal to \<^verbatim>\<open>NaN\<close>, and a one-character string is not strictly equal to the number 0.
\<close>

lemma strict_eq_char_at_Num: "strict_eq (char_at input i) (JNumber x) = False"
  by (simp add: char_at_def)

lemma new_IntegerAP_accepts: "new_IntegerAP input msgs = (msgs, Inr (IntegerAP input))"
  by (simp add: new_IntegerAP_def strict_eq_char_at_Num list_ex_iff)

lemma new_RealAP_accepts: "new_RealAP input msgs = (msgs, Inr (RealAP input))"
  by (simp add: new_RealAP_def strict_eq_char_at_Num)

section \<open>C1: the checks of \<open>IntegerAP\<close>\<close>

text \<open>
  C1. The claim is that \<^verbatim>\<open>IntegerAP\<close> fails on a string with a non-digit or with a
  leading zero, \<^verbatim>\<open>IntegerAP("007")\<close> in particular. The constructor accepts both
  \<^verbatim>\<open>"007"\<close> and \<^verbatim>\<open>"12a"\<close>: it logs nothing and returns the value.
\<close>

theorem IntegerAP_007_accepted:
  "new_IntegerAP ''007'' msgs = (msgs, Inr (IntegerAP ''007'')) \<and>
   new_IntegerAP ''12a'' msgs = (msgs, Inr (IntegerAP ''12a''))"
  by (simp add: new_IntegerAP_def char_at_def)

section \<open>C9: termination of the sequence decoder\<close>

lemma Int32_neg5: "Int32 [0x73, 0xFB, 0xFF, 0xFF, 0xFF] 1 = - 5"
  by (simp add: Int32_def getInt32_def word_rcat_def)

lemma StringEntry_neg5:
  "StringEntry [0x73, 0xFB, 0xFF, 0xFF, 0xFF] 1 =
     \<lparr> se_length = - 5, se_string = [], bytesRead = - 1 \<rparr>"
  by (simp add: StringEntry_def Int32_neg5 Decode_String_def U8ArrayToString_map
        slice_u8_def relative_index_def)

lemma tag_state_neg5: "tag_state (u8_at [0x73, 0xFB, 0xFF, 0xFF, 0xFF] 0) = Some SYMBOL"
  by (simp add: tag_state_def u8_at_def fromCharCode_opt_def fromCharCode_def char_of_def
        bit_Suc_0_iff)

text \<open>
  The buffer is the tag \<^verbatim>\<open>s\<close> and the length -5. The symbol entry is read at offset 1,
  it appends an empty symbol and moves the offset by -1, back to the tag: the loop is
  in the same state and offset every two iterations, with one more part.
\<close>

lemma negative_length_loop:
  "Any_loop fuel [0x73, 0xFB, 0xFF, 0xFF, 0xFF] Infinity 0 READY 0 parts msgs = None \<and>
   Any_loop fuel [0x73, 0xFB, 0xFF, 0xFF, 0xFF] Infinity 0 SYMBOL 1 parts msgs = None"
proof (induction fuel arbitrary: parts)
  case 0
  show ?case by simp
next
  case (Suc fuel)
  show ?case
    using Suc [of parts] Suc [of "parts @ [Symbol []]"]
    by (simp add: tag_state_neg5 StringEntry_neg5)
qed

text \<open>
  C9. The claim is that \<^verbatim>\<open>Mma.Decode.Any\<close> terminates on every buffer, negative string
  lengths included. On the buffer \<^verbatim>\<open>s\<close>, -5 with the default \<^verbatim>\<open>maxParts\<close> the decoder
  does not return, whatever the fuel.
\<close>

theorem negative_length_never_returns:
  "Any fuel [0x73, 0xFB, 0xFF, 0xFF, 0xFF] 0 Infinity msgs = None"
  by (simp add: Any_def negative_length_loop)

section \<open>C6: fixed-width reads\<close>

text \<open>Characters and bytes: \<^verbatim>\<open>String.fromCharCode\<close> and \<^verbatim>\<open>charCodeAt\<close> are inverse.\<close>

lemma of_char_fromCharCode: "of_char (fromCharCode b) = b"
proof -
  have "unat b < 256"
    using unsigned_less [of b, where ?'a = nat] by simp
  then have "(of_char (char_of (unat b)) :: nat) = unat b"
    by simp
  then have "of_nat (of_char (char_of (unat b)) :: nat) = (of_nat (unat b) :: byte)"
    by simp
  then show ?thesis
    unfolding fromCharCode_def by (simp only: of_nat_of_char of_nat_unat ucast_id)
qed

lemma fromCharCode_of_char: "fromCharCode (of_char c) = c"
proof -
  have "(of_char c :: byte) = of_nat (of_char c)"
    by (simp only: of_nat_of_char)
  then have "unat (of_char c :: byte) = (of_char c :: nat) mod 256"
    by (simp add: unat_of_nat del: of_nat_of_char)
  also have "\<dots> = of_char c"
    by simp
  finally show ?thesis
    by (simp add: fromCharCode_def)
qed

lemma fromCharCode_eq_iff: "fromCharCode b = c \<longleftrightarrow> b = of_char c"
  using of_char_fromCharCode fromCharCode_of_char by metis


text \<open>The bytes of a read in range, and the value of the word they make, least
  significant byte first.\<close>

lemma take_drop_nth:
  "n + k \<le> length xs \<Longrightarrow> take k (drop n xs) = map (\<lambda>i. xs ! (n + i)) [0..<k]"
  by (simp add: list_eq_iff_nth_eq)

lemma upt4: "[0..<4] = [0, 1, 2, 3]"
  by (simp add: upt_rec)

lemma upt8: "[0..<8] = [0, 1, 2, 3, 4, 5, 6, 7]"
  by (simp add: upt_rec)

lemma sum4: "(\<Sum>i<4. f i) = f 0 + f 1 + f 2 + (f (3 :: nat) :: int)"
  by (simp add: numeral_eq_Suc)

lemma sum8: "(\<Sum>i<8. f i) = f 0 + f 1 + f 2 + f 3 + f 4 + f 5 + f 6 + (f (7 :: nat) :: int)"
  by (simp add: numeral_eq_Suc)

lemma uint_byte_bounds: "0 \<le> uint (b :: byte) \<and> uint b < 256"
  using uint_bounded [of b] by simp

lemma uint_rcat4:
  "uint (word_rcat [b3, b2, b1, b0 :: byte] :: 32 word) =
     uint b0 + 256 * uint b1 + 65536 * uint b2 + 16777216 * uint b3"
proof -
  have "uint (word_rcat [b3, b2, b1, b0] :: 32 word) =
          (uint b0 + 256 * (uint b1 + 256 * (uint b2 + 256 * uint b3))) mod 2 ^ 32"
    unfolding word_rcat_def
    by (simp only: o_apply rev.simps append.simps horner_sum_simps uint_word_of_int
          take_bit_eq_mod, simp)
  also have "\<dots> = uint b0 + 256 * (uint b1 + 256 * (uint b2 + 256 * uint b3))"
    using uint_byte_bounds [of b0] uint_byte_bounds [of b1] uint_byte_bounds [of b2]
      uint_byte_bounds [of b3]
    by (intro mod_pos_pos_trivial) simp_all
  finally show ?thesis by simp
qed

lemma uint_rcat8:
  "uint (word_rcat [b7, b6, b5, b4, b3, b2, b1, b0 :: byte] :: 64 word) =
     uint b0 + 256 * uint b1 + 256 ^ 2 * uint b2 + 256 ^ 3 * uint b3 +
     256 ^ 4 * uint b4 + 256 ^ 5 * uint b5 + 256 ^ 6 * uint b6 + 256 ^ 7 * uint b7"
proof -
  have "uint (word_rcat [b7, b6, b5, b4, b3, b2, b1, b0] :: 64 word) =
          (uint b0 + 256 * (uint b1 + 256 * (uint b2 + 256 * (uint b3 + 256 * (uint b4 +
             256 * (uint b5 + 256 * (uint b6 + 256 * uint b7))))))) mod 2 ^ 64"
    unfolding word_rcat_def
    by (simp only: o_apply rev.simps append.simps horner_sum_simps uint_word_of_int
          take_bit_eq_mod, simp)
  also have "\<dots> = uint b0 + 256 * (uint b1 + 256 * (uint b2 + 256 * (uint b3 + 256 * (uint b4 +
             256 * (uint b5 + 256 * (uint b6 + 256 * uint b7))))))"
    using uint_byte_bounds [of b0] uint_byte_bounds [of b1] uint_byte_bounds [of b2]
      uint_byte_bounds [of b3] uint_byte_bounds [of b4] uint_byte_bounds [of b5]
      uint_byte_bounds [of b6] uint_byte_bounds [of b7]
    by (intro mod_pos_pos_trivial) simp_all
  finally show ?thesis by simp
qed

lemma sint32_uint:
  "sint (w :: 32 word) = (if uint w < 2 ^ 31 then uint w else uint w - 2 ^ 32)"
proof -
  have b: "0 \<le> uint w" "uint w < 2 ^ 32"
    using uint_bounded [of w] by simp_all
  show ?thesis
  proof (cases "uint w < 2 ^ 31")
    case True
    then have "(uint w + 2 ^ 31) mod 2 ^ 32 = uint w + 2 ^ 31"
      using b by (intro mod_pos_pos_trivial) simp_all
    with True show ?thesis
      by (simp add: sint_uint signed_take_bit_eq_take_bit_shift take_bit_eq_mod)
  next
    case False
    have "(uint w + 2 ^ 31) mod 2 ^ 32 = (uint w + 2 ^ 31 - 2 ^ 32) mod 2 ^ 32"
      by (metis mod_diff_right_eq mod_self diff_zero)
    also have "\<dots> = uint w + 2 ^ 31 - 2 ^ 32"
      using b False by (intro mod_pos_pos_trivial) simp_all
    finally show ?thesis using False
      by (simp add: sint_uint signed_take_bit_eq_take_bit_shift take_bit_eq_mod)
  qed
qed

text \<open>
  C6. Out of range (a negative offset, or a read that ends after the last byte)
  \<^verbatim>\<open>Decode.Int32\<close> returns 0 and \<^verbatim>\<open>Decode.Float64\<close> returns the float 0, all bits
  zero, and neither throws. In range \<^verbatim>\<open>Decode.Int32\<close> is the two's complement reading
  of the four bytes, least significant first, and the bits of \<^verbatim>\<open>Decode.Float64\<close> are
  the eight bytes, least significant first.
\<close>

theorem primitive_reads:
  "(offset < 0 \<or> int (length bits) < offset + 4 \<longrightarrow> Int32 bits offset = 0) \<and>
   (offset < 0 \<or> int (length bits) < offset + 8 \<longrightarrow> Float64 bits offset = 0) \<and>
   (0 \<le> offset \<and> offset + 4 \<le> int (length bits) \<longrightarrow>
      Int32 bits offset =
        (let u = (\<Sum>i<4. uint (bits ! (nat offset + i)) * 256 ^ i)
         in if u < 2 ^ 31 then u else u - 2 ^ 32)) \<and>
   (0 \<le> offset \<and> offset + 8 \<le> int (length bits) \<longrightarrow>
      uint (Float64 bits offset) = (\<Sum>i<8. uint (bits ! (nat offset + i)) * 256 ^ i))"
proof (intro conjI impI)
  assume "offset < 0 \<or> int (length bits) < offset + 4"
  then show "Int32 bits offset = 0" by (auto simp: Int32_def getInt32_def)
next
  assume "offset < 0 \<or> int (length bits) < offset + 8"
  then show "Float64 bits offset = 0" by (auto simp: Float64_def getFloat64_def)
next
  assume a: "0 \<le> offset \<and> offset + 4 \<le> int (length bits)"
  then have n: "nat offset + 4 \<le> length bits" by linarith
  have s: "(\<Sum>i<4. uint (bits ! (nat offset + i)) * 256 ^ i) =
        uint (word_rcat (rev (take 4 (drop (nat offset) bits))) :: 32 word)"
    by (simp add: take_drop_nth [OF n] upt4 uint_rcat4 sum4)
  show "Int32 bits offset =
        (let u = (\<Sum>i<4. uint (bits ! (nat offset + i)) * 256 ^ i)
         in if u < 2 ^ 31 then u else u - 2 ^ 32)"
    unfolding s Let_def using a by (simp add: Int32_def getInt32_def sint32_uint)
next
  assume a: "0 \<le> offset \<and> offset + 8 \<le> int (length bits)"
  then have n: "nat offset + 8 \<le> length bits" by linarith
  show "uint (Float64 bits offset) = (\<Sum>i<8. uint (bits ! (nat offset + i)) * 256 ^ i)"
    using a by (simp add: Float64_def getFloat64_def take_drop_nth [OF n] upt8 uint_rcat8 sum8)
qed

theorem primitive_reads_witness:
  "Int32 [0xFB, 0xFF, 0xFF, 0xFF, 0x01] 2 = 0 \<and>
   Float64 [0, 0, 0, 0, 0, 0, 0xF0, 0x3F] 1 = 0 \<and>
   Int32 [0xFB, 0xFF, 0xFF, 0xFF, 0x01] 0 = - 5 \<and>
   Int32 [0xFB, 0xFF, 0xFF, 0xFF, 0x01] 1 = 0x1FFFFFF \<and>
   uint (Float64 [0, 0, 0, 0, 0, 0, 0xF0, 0x3F] 0) = 0x3FF0000000000000"
  using primitive_reads [where offset = 2 and bits = "[0xFB, 0xFF, 0xFF, 0xFF, 0x01]"]
    primitive_reads [where offset = 1 and bits = "[0, 0, 0, 0, 0, 0, 0xF0, 0x3F]"]
    primitive_reads [where offset = 0 and bits = "[0xFB, 0xFF, 0xFF, 0xFF, 0x01]"]
    primitive_reads [where offset = 1 and bits = "[0xFB, 0xFF, 0xFF, 0xFF, 0x01]"]
    primitive_reads [where offset = 0 and bits = "[0, 0, 0, 0, 0, 0, 0xF0, 0x3F]"]
  by (simp add: sum4 sum8)

section \<open>C7: the preprocessor\<close>






end
